theory Spec2Isabelle
  imports Complex_Main
begin

section \<open>Scalars, tags and sinks\<close>

text \<open>
  The module \<^verbatim>\<open>utilities/experiment_utils.py\<close> logs Python floats. A float is
  a finite value, one of the two infinities or not-a-number. The tracker never computes
  with the floats it is given: it stores them, hands them to the loggers and passes the
  buffer to \<^verbatim>\<open>np.mean\<close>. So a finite float is kept as the real number it
  denotes, and no arithmetic on floats is defined here.
\<close>

datatype pyfloat = Fin real | PInf | NInf | NaN

text \<open>
  A metric is a callable on (ground truth, predictions). It is taken to return a float
  and not to raise.
\<close>

type_synonym metric = "pyfloat list \<Rightarrow> pyfloat list \<Rightarrow> pyfloat"

text \<open>
  The first argument of \<^verbatim>\<open>log_scalar\<close> is a \<^verbatim>\<open>str\<close> on most paths, but
  \<^verbatim>\<open>compute_metrics\<close> passes the metric object itself when no names are configured.
\<close>

datatype tag = Str string | Obj metric

datatype error = TypeError | AssertionError

text \<open>
  The two concrete \<^verbatim>\<open>Logger\<close> classes. \<^verbatim>\<open>SacredLogger\<close> holds an experiment
  handle, \<^verbatim>\<open>TensorBoardLogger\<close> a writer opened on a directory; both are identified
  by a string here. What a logger does is one call on its sink, recorded as an event.
  Failures of the sink itself (for instance an I/O error) are outside the model.
\<close>

datatype logger = SacredLogger string | TensorBoardLogger string

datatype event =
    Ex_log_scalar string tag pyfloat int
  | Writer_add_scalar string tag pyfloat int

fun log_scalar :: "logger \<Rightarrow> tag \<Rightarrow> pyfloat \<Rightarrow> int \<Rightarrow> event" where
  "log_scalar (SacredLogger ex) tg v step = Ex_log_scalar ex tg v step"
| "log_scalar (TensorBoardLogger writer) tg v step = Writer_add_scalar writer tg v step"

fun tag_of :: "event \<Rightarrow> tag" where
  "tag_of (Ex_log_scalar _ tg _ _) = tg"
| "tag_of (Writer_add_scalar _ tg _ _) = tg"

section \<open>The mean of the buffered losses\<close>

text \<open>
  \<^verbatim>\<open>float(np.mean(self.losses).item())\<close>. On a sequence that is not empty,
  numpy adds the elements up in 64-bit floating point, in an order of its own, and divides
  the sum by their number; each operation rounds and may overflow, so the result is a
  function of the sequence that is not the quotient of the real numbers. That function is
  not computed here: it is the parameter \<open>float_mean\<close>, about which nothing is assumed.
  On an empty sequence numpy divides zero by zero: it issues a
  \<^verbatim>\<open>RuntimeWarning\<close> and the result is \<^verbatim>\<open>nan\<close>; nothing is raised.
\<close>

definition np_mean :: "(pyfloat list \<Rightarrow> pyfloat) \<Rightarrow> pyfloat list \<Rightarrow> pyfloat" where
  "np_mean float_mean xs = (if xs = [] then NaN else float_mean xs)"

section \<open>Loops that may raise\<close>

text \<open>
  A \<^verbatim>\<open>for\<close> loop whose body may raise: the events of the iterations that ran are
  kept, the first error ends the loop.
\<close>

fun for_each :: "'a list \<Rightarrow> ('a \<Rightarrow> (error + unit) \<times> event list) \<Rightarrow> (error + unit) \<times> event list" where
  "for_each [] body = (Inr (), [])"
| "for_each (x # xs) body =
     (case body x of
        (Inl e, evs) \<Rightarrow> (Inl e, evs)
      | (Inr _, evs) \<Rightarrow> (case for_each xs body of (r, evs') \<Rightarrow> (r, evs @ evs')))"

text \<open>
  One call \<^verbatim>\<open>logger.log_scalar(tag_expr, value, step)\<close>: the tag expression is
  evaluated first and may raise, in which case the sink is not called.
\<close>

fun emit :: "logger \<Rightarrow> error + tag \<Rightarrow> pyfloat \<Rightarrow> int \<Rightarrow> (error + unit) \<times> event list" where
  "emit lg (Inl e) v step = (Inl e, [])"
| "emit lg (Inr tg) v step = (Inr (), [log_scalar lg tg v step])"

section \<open>Tracker\<close>

record tracker =
  epoch :: int
  update :: int
  losses :: "pyfloat list"
  loggers :: "logger list"
  log_every :: int
  metrics :: "metric list option"
  metrics_names :: "string list option"
  pre_tag :: string

text \<open>
  \<^verbatim>\<open>Tracker.__init__(*loggers, log_every=1, metrics=None, metrics_names=None, pre_tag='')\<close>.
\<close>

definition Tracker_init ::
  "logger list \<Rightarrow> int \<Rightarrow> metric list option \<Rightarrow> string list option \<Rightarrow> string \<Rightarrow> tracker" where
  "Tracker_init lgs le ms ns pt =
     \<lparr>epoch = 0, update = 0, losses = [], loggers = lgs, log_every = le,
      metrics = ms, metrics_names = ns, pre_tag = pt\<rparr>"

text \<open>
  \<^verbatim>\<open>_pre\<close>: \<^verbatim>\<open>self.pre_tag + '.' + string if self.pre_tag else string\<close>.
  Concatenating a \<^verbatim>\<open>str\<close> with an object that is not one raises
  \<^verbatim>\<open>TypeError\<close>.
\<close>

definition pre :: "tracker \<Rightarrow> tag \<Rightarrow> error + tag" where
  "pre t name =
     (if pre_tag t \<noteq> [] then
        (case name of
           Str s \<Rightarrow> Inr (Str (pre_tag t @ ''.'' @ s))
         | Obj m \<Rightarrow> Inl TypeError)
      else Inr name)"

definition track_loss :: "tracker \<Rightarrow> pyfloat \<Rightarrow> (error + unit) \<times> tracker \<times> event list" where
  "track_loss t loss =
     (let t1 = (if epoch t > 0 then t\<lparr>update := update t + 1\<rparr> else t) in
      case (if log_every t1 > 0 \<and> update t1 mod log_every t1 = 0 \<and> update t1 \<noteq> 0
            then for_each (loggers t1)
                   (\<lambda>lg. emit lg (pre t1 (Str ''loss'')) loss (update t1))
            else (Inr (), [])) of
        (Inl e, evs) \<Rightarrow> (Inl e, t1, evs)
      | (Inr _, evs) \<Rightarrow> (Inr (), t1\<lparr>losses := losses t1 @ [loss]\<rparr>, evs))"

definition summarise ::
  "(pyfloat list \<Rightarrow> pyfloat) \<Rightarrow> tracker \<Rightarrow> (error + pyfloat) \<times> tracker \<times> event list" where
  "summarise float_mean t =
     (let avg_loss = np_mean float_mean (losses t);
          t1 = t\<lparr>losses := []\<rparr> in
      case for_each (loggers t1)
             (\<lambda>lg. emit lg (pre t1 (Str ''avg_loss'')) avg_loss (epoch t1)) of
        (Inl e, evs) \<Rightarrow> (Inl e, t1, evs)
      | (Inr _, evs) \<Rightarrow> (Inr avg_loss, t1\<lparr>epoch := epoch t1 + 1\<rparr>, evs))"

text \<open>Python truthiness of an optional list: \<^verbatim>\<open>None\<close> and \<^verbatim>\<open>[]\<close> are false.\<close>

fun truthy :: "'a list option \<Rightarrow> bool" where
  "truthy None = False"
| "truthy (Some xs) = (xs \<noteq> [])"

text \<open>
  \<^verbatim>\<open>names = self.metrics_names if self.metrics_names else self.metrics\<close>,
  on the path where \<^verbatim>\<open>self.metrics\<close> is a non-empty list.
\<close>

definition names :: "tracker \<Rightarrow> tag list" where
  "names t =
     (if truthy (metrics_names t) then map Str (the (metrics_names t))
      else map Obj (the (metrics t)))"

text \<open>
  \<^verbatim>\<open>compute_metrics\<close>. The \<^verbatim>\<open>assert\<close> statement is taken as the
  interpreter runs it by default, raising \<^verbatim>\<open>AssertionError\<close> when its condition
  is false. The tracker is part of the result although no attribute is assigned, since the
  caller goes on with it.
\<close>

definition compute_metrics ::
  "tracker \<Rightarrow> pyfloat list \<Rightarrow> pyfloat list \<Rightarrow> (error + unit) \<times> tracker \<times> event list" where
  "compute_metrics t y_array pred_array =
     (if \<not> truthy (metrics t) then (Inr (), t, [])
      else if length y_array \<noteq> length pred_array then (Inl AssertionError, t, [])
      else
        (case for_each (loggers t)
                (\<lambda>lg. for_each (zip (the (metrics t)) (names t))
                   (\<lambda>(metric, metric_name).
                      emit lg (pre t metric_name) (metric y_array pred_array) (epoch t))) of
           (r, evs) \<Rightarrow> (r, t, evs)))"

text \<open>
  The loop drivers \<^verbatim>\<open>evaluate\<close> and \<^verbatim>\<open>update\<close> call
  \<^verbatim>\<open>tracker.track_loss\<close> once for each batch of the data source. This is
  that sequence of calls on the losses of the batches; the result lists, call by call, the
  events that were emitted. A call that raised would end the sequence.
\<close>

fun track_losses :: "tracker \<Rightarrow> pyfloat list \<Rightarrow> tracker \<times> event list list" where
  "track_losses t [] = (t, [])"
| "track_losses t (l # ls) =
     (case track_loss t l of
        (Inl e, t', evs) \<Rightarrow> (t', [evs])
      | (Inr _, t', evs) \<Rightarrow> (case track_losses t' ls of (t'', evss) \<Rightarrow> (t'', evs # evss)))"

text \<open>
  A metric used in the examples below:
  \<^verbatim>\<open>lambda y, p: 1.0 if y == p else 0.0\<close>.
\<close>

definition exact_match :: metric where
  "exact_match y p = (if y = p then Fin 1 else Fin 0)"

section \<open>Facts about the loops\<close>

lemma for_each_all_ok:
  "(\<And>x. x \<in> set xs \<Longrightarrow> body x = (Inr (), f x)) \<Longrightarrow>
     for_each xs body = (Inr (), concat (map f xs))"
  by (induction xs) auto

lemma pre_Str: "pre t (Str s) = Inr (Str (if pre_tag t = [] then s else pre_tag t @ ''.'' @ s))"
  by (simp add: pre_def)

lemma for_each_emit_Str:
  "for_each lgs (\<lambda>lg. emit lg (pre t (Str s)) v step) =
     (Inr (), map (\<lambda>lg. log_scalar lg (Str (if pre_tag t = [] then s else pre_tag t @ ''.'' @ s)) v step) lgs)"
  by (induction lgs) (simp_all add: pre_Str)

section \<open>The mean\<close>

lemma np_mean_Nil: "np_mean float_mean [] = NaN"
  by (simp add: np_mean_def)

lemma np_mean_Cons: "np_mean float_mean (x # xs) = float_mean (x # xs)"
  by (simp add: np_mean_def)

section \<open>summarise\<close>

text \<open>
  What \<^verbatim>\<open>summarise\<close> does with the mean, whatever its value: it is returned, the
  buffer is emptied, \<^verbatim>\<open>avg_loss\<close> (prefixed) is sent with it to every logger, in
  order, at the step the epoch counter had before the call, and the epoch counter is
  incremented. No other field changes and nothing is raised.
\<close>

lemma summarise_eq:
  "summarise float_mean t =
     (Inr (np_mean float_mean (losses t)),
      t\<lparr>losses := [], epoch := epoch t + 1\<rparr>,
      map (\<lambda>lg. log_scalar lg
             (Str (if pre_tag t = [] then ''avg_loss'' else pre_tag t @ ''.'' @ ''avg_loss''))
             (np_mean float_mean (losses t)) (epoch t)) (loggers t))"
  by (simp add: summarise_def Let_def for_each_emit_Str)

text \<open>
  Claim C3 says that \<^verbatim>\<open>summarise\<close> fails on an empty buffer. It does not: on a
  new tracker with one logger the call returns not-a-number, logs it at step 0 and moves
  on to epoch 1.
\<close>

theorem C3_summarise_empty_counterexample:
  "summarise (\<lambda>xs. Fin 0) \<lparr>epoch = 0, update = 0, losses = [],
            loggers = [SacredLogger ''ex''], log_every = 1,
            metrics = None, metrics_names = None, pre_tag = ''''\<rparr>
     = (Inr NaN,
        \<lparr>epoch = 1, update = 0, losses = [],
            loggers = [SacredLogger ''ex''], log_every = 1,
            metrics = None, metrics_names = None, pre_tag = ''''\<rparr>,
        [Ex_log_scalar ''ex'' (Str ''avg_loss'') NaN 0])"
  by (simp add: summarise_eq np_mean_Nil)

text \<open>
  Claim C3, amended. Called while the buffer of losses is empty, \<^verbatim>\<open>summarise\<close>
  raises nothing: it returns not-a-number (\<^verbatim>\<open>np.mean\<close> of an empty sequence),
  sends \<^verbatim>\<open>avg_loss\<close> (prefixed) with that value to every logger at the step of
  the current epoch, leaves the buffer empty and adds one to the epoch counter.
\<close>

theorem C3_summarise_empty_nan:
  assumes "losses t = []"
  shows "summarise float_mean t =
     (Inr NaN,
      t\<lparr>losses := [], epoch := epoch t + 1\<rparr>,
      map (\<lambda>lg. log_scalar lg
             (Str (if pre_tag t = [] then ''avg_loss'' else pre_tag t @ ''.'' @ ''avg_loss''))
             NaN (epoch t)) (loggers t))"
  using assms by (simp add: summarise_eq np_mean_Nil)

theorem C3_summarise_empty_nan_witness:
  "losses \<lparr>epoch = 2, update = 5, losses = [],
            loggers = [TensorBoardLogger ''runs'', SacredLogger ''ex''], log_every = 1,
            metrics = None, metrics_names = None, pre_tag = ''val''\<rparr> = []
   \<and> summarise (\<lambda>xs. Fin 0) \<lparr>epoch = 2, update = 5, losses = [],
            loggers = [TensorBoardLogger ''runs'', SacredLogger ''ex''], log_every = 1,
            metrics = None, metrics_names = None, pre_tag = ''val''\<rparr>
     = (Inr NaN,
        \<lparr>epoch = 3, update = 5, losses = [],
            loggers = [TensorBoardLogger ''runs'', SacredLogger ''ex''], log_every = 1,
            metrics = None, metrics_names = None, pre_tag = ''val''\<rparr>,
        [Writer_add_scalar ''runs'' (Str ''val.avg_loss'') NaN 2,
         Ex_log_scalar ''ex'' (Str ''val.avg_loss'') NaN 2])"
  using C3_summarise_empty_nan [where float_mean = "\<lambda>xs. Fin 0"
          and t = "\<lparr>epoch = 2, update = 5, losses = [],
            loggers = [TensorBoardLogger ''runs'', SacredLogger ''ex''], log_every = 1,
            metrics = None, metrics_names = None, pre_tag = ''val''\<rparr>"]
  by simp

section \<open>Tracking a loss\<close>

lemma track_loss_eq:
  "track_loss t loss =
     (Inr (),
      t\<lparr>update := (if epoch t > 0 then update t + 1 else update t),
        losses := losses t @ [loss]\<rparr>,
      (if log_every t > 0
          \<and> (if epoch t > 0 then update t + 1 else update t) mod log_every t = 0
          \<and> (if epoch t > 0 then update t + 1 else update t) \<noteq> 0
       then map (\<lambda>lg. log_scalar lg
                   (Str (if pre_tag t = [] then ''loss'' else pre_tag t @ ''.'' @ ''loss''))
                   loss (if epoch t > 0 then update t + 1 else update t)) (loggers t)
       else []))"
  by (auto simp add: track_loss_def Let_def for_each_emit_Str)

lemma track_loss_update_nonneg:
  "0 \<le> update t \<Longrightarrow> 0 \<le> update (fst (snd (track_loss t loss)))"
  by (simp add: track_loss_eq)

lemma Tracker_init_update: "update (Tracker_init lgs le ms ns pt) = 0"
  by (simp add: Tracker_init_def)

lemma summarise_update: "update (fst (snd (summarise float_mean t))) = update t"
  by (simp add: summarise_eq)

lemma compute_metrics_update: "update (fst (snd (compute_metrics t y p))) = update t"
  by (simp add: compute_metrics_def split: prod.splits)

text \<open>
  Claim C2. The counter \<^verbatim>\<open>update\<close> starts at 0 and is only ever incremented, so
  it is never negative. For such a tracker, \<^verbatim>\<open>track_loss(loss)\<close> adds one to
  \<^verbatim>\<open>update\<close> when \<^verbatim>\<open>epoch > 0\<close> and leaves it alone otherwise; then it
  sends \<^verbatim>\<open>loss\<close> (prefixed) with the value \<^verbatim>\<open>loss\<close> to every logger at
  step \<^verbatim>\<open>update\<close> exactly when \<^verbatim>\<open>log_every > 0\<close> and the new
  \<^verbatim>\<open>update\<close> is a positive multiple of \<^verbatim>\<open>log_every\<close>; and it appends
  \<^verbatim>\<open>loss\<close> to the buffer in every case. With \<^verbatim>\<open>log_every = 2\<close>,
  \<^verbatim>\<open>epoch > 0\<close> and \<^verbatim>\<open>update = 0\<close>, five calls emit on the second and
  the fourth call only, at steps 2 and 4.
\<close>

theorem C2_track_loss:
  assumes "0 \<le> update t"
  shows "track_loss t loss =
       (Inr (),
        t\<lparr>update := (if epoch t > 0 then update t + 1 else update t),
          losses := losses t @ [loss]\<rparr>,
        (if log_every t > 0
            \<and> 0 < (if epoch t > 0 then update t + 1 else update t)
            \<and> log_every t dvd (if epoch t > 0 then update t + 1 else update t)
         then map (\<lambda>lg. log_scalar lg
                     (Str (if pre_tag t = [] then ''loss'' else pre_tag t @ ''.'' @ ''loss''))
                     loss (if epoch t > 0 then update t + 1 else update t)) (loggers t)
         else []))
     \<and> (epoch t > 0 \<and> update t = 0 \<and> log_every t = 2 \<longrightarrow>
          snd (track_losses t [l1, l2, l3, l4, l5]) =
            [[],
             map (\<lambda>lg. log_scalar lg
                     (Str (if pre_tag t = [] then ''loss'' else pre_tag t @ ''.'' @ ''loss''))
                     l2 2) (loggers t),
             [],
             map (\<lambda>lg. log_scalar lg
                     (Str (if pre_tag t = [] then ''loss'' else pre_tag t @ ''.'' @ ''loss''))
                     l4 4) (loggers t),
             []])"
proof (intro conjI impI)
  have "0 \<le> (if epoch t > 0 then update t + 1 else update t)"
    using assms by simp
  then show "track_loss t loss =
       (Inr (),
        t\<lparr>update := (if epoch t > 0 then update t + 1 else update t),
          losses := losses t @ [loss]\<rparr>,
        (if log_every t > 0
            \<and> 0 < (if epoch t > 0 then update t + 1 else update t)
            \<and> log_every t dvd (if epoch t > 0 then update t + 1 else update t)
         then map (\<lambda>lg. log_scalar lg
                     (Str (if pre_tag t = [] then ''loss'' else pre_tag t @ ''.'' @ ''loss''))
                     loss (if epoch t > 0 then update t + 1 else update t)) (loggers t)
         else []))"
    unfolding track_loss_eq by (auto simp: mod_eq_0_iff_dvd)
next
  assume "epoch t > 0 \<and> update t = 0 \<and> log_every t = 2"
  then show "snd (track_losses t [l1, l2, l3, l4, l5]) =
            [[],
             map (\<lambda>lg. log_scalar lg
                     (Str (if pre_tag t = [] then ''loss'' else pre_tag t @ ''.'' @ ''loss''))
                     l2 2) (loggers t),
             [],
             map (\<lambda>lg. log_scalar lg
                     (Str (if pre_tag t = [] then ''loss'' else pre_tag t @ ''.'' @ ''loss''))
                     l4 4) (loggers t),
             []]"
    by (simp add: track_loss_eq)
qed

theorem C2_track_loss_witness:
  "0 \<le> update \<lparr>epoch = 1, update = 0, losses = [],
            loggers = [SacredLogger ''ex''], log_every = 2,
            metrics = None, metrics_names = None, pre_tag = ''train''\<rparr>
   \<and> track_loss \<lparr>epoch = 1, update = 0, losses = [],
            loggers = [SacredLogger ''ex''], log_every = 2,
            metrics = None, metrics_names = None, pre_tag = ''train''\<rparr> (Fin 5)
      = (Inr (),
         \<lparr>epoch = 1, update = 1, losses = [Fin 5],
            loggers = [SacredLogger ''ex''], log_every = 2,
            metrics = None, metrics_names = None, pre_tag = ''train''\<rparr>, [])
   \<and> snd (track_losses \<lparr>epoch = 1, update = 0, losses = [],
            loggers = [SacredLogger ''ex''], log_every = 2,
            metrics = None, metrics_names = None, pre_tag = ''train''\<rparr>
          [Fin 5, Fin 4, Fin 3, Fin 2, Fin 1])
      = [[], [Ex_log_scalar ''ex'' (Str ''train.loss'') (Fin 4) 2], [],
         [Ex_log_scalar ''ex'' (Str ''train.loss'') (Fin 2) 4], []]"
  using C2_track_loss [of "\<lparr>epoch = 1, update = 0, losses = [],
            loggers = [SacredLogger ''ex''], log_every = 2,
            metrics = None, metrics_names = None, pre_tag = ''train''\<rparr>"
          "Fin 5" "Fin 5" "Fin 4" "Fin 3" "Fin 2" "Fin 1"]
  by (simp add: track_loss_eq)

lemma track_losses_epoch0:
  "epoch t = 0 \<Longrightarrow> update t = 0 \<Longrightarrow>
     track_losses t ls = (t\<lparr>losses := losses t @ ls\<rparr>, replicate (length ls) [])"
proof (induction ls arbitrary: t)
  case Nil
  then show ?case by simp
next
  case (Cons l ls)
  have "track_loss t l = (Inr (), t\<lparr>losses := losses t @ [l]\<rparr>, [])"
    using Cons.prems by (simp add: track_loss_eq)
  moreover have "track_losses (t\<lparr>losses := losses t @ [l]\<rparr>) ls =
      (t\<lparr>losses := losses t @ [l]\<rparr>\<lparr>losses := losses (t\<lparr>losses := losses t @ [l]\<rparr>) @ ls\<rparr>,
       replicate (length ls) [])"
    using Cons.prems by (intro Cons.IH) simp_all
  ultimately show ?case by simp
qed

text \<open>
  Claim C5. While \<^verbatim>\<open>epoch\<close> is 0, \<^verbatim>\<open>track_loss\<close> leaves
  \<^verbatim>\<open>update\<close> as it is, and it emits something only if \<^verbatim>\<open>log_every > 0\<close>
  and the value \<^verbatim>\<open>update\<close> already had satisfies
  \<^verbatim>\<open>update % log_every == 0 and update != 0\<close>. On a tracker that has just been
  constructed, with any loggers, \<^verbatim>\<open>log_every\<close>, metrics, names and prefix, any
  sequence of \<^verbatim>\<open>track_loss\<close> calls emits nothing at all; it only fills the buffer.
\<close>

theorem C5_epoch0:
  "(epoch t = 0 \<longrightarrow>
      update (fst (snd (track_loss t loss))) = update t
      \<and> (snd (snd (track_loss t loss)) \<noteq> [] \<longrightarrow>
           0 < log_every t \<and> update t mod log_every t = 0 \<and> update t \<noteq> 0))
   \<and> track_losses (Tracker_init lgs le ms ns pt) ls =
       ((Tracker_init lgs le ms ns pt)\<lparr>losses := ls\<rparr>, replicate (length ls) [])"
proof (intro conjI impI)
  assume "epoch t = 0"
  then show "update (fst (snd (track_loss t loss))) = update t"
    by (simp add: track_loss_eq)
next
  assume "epoch t = 0" and "snd (snd (track_loss t loss)) \<noteq> []"
  then show "0 < log_every t" "update t mod log_every t = 0" "update t \<noteq> 0"
    by (simp_all add: track_loss_eq split: if_splits)
next
  show "track_losses (Tracker_init lgs le ms ns pt) ls =
       ((Tracker_init lgs le ms ns pt)\<lparr>losses := ls\<rparr>, replicate (length ls) [])"
    using track_losses_epoch0 [of "Tracker_init lgs le ms ns pt" ls]
    by (simp add: Tracker_init_def)
qed

theorem C5_epoch0_witness:
  "epoch \<lparr>epoch = 0, update = 4, losses = [],
            loggers = [SacredLogger ''ex''], log_every = 2,
            metrics = None, metrics_names = None, pre_tag = ''''\<rparr> = 0
   \<and> update (fst (snd (track_loss \<lparr>epoch = 0, update = 4, losses = [],
            loggers = [SacredLogger ''ex''], log_every = 2,
            metrics = None, metrics_names = None, pre_tag = ''''\<rparr> (Fin 1)))) = 4
   \<and> snd (snd (track_loss \<lparr>epoch = 0, update = 4, losses = [],
            loggers = [SacredLogger ''ex''], log_every = 2,
            metrics = None, metrics_names = None, pre_tag = ''''\<rparr> (Fin 1)))
       = [Ex_log_scalar ''ex'' (Str ''loss'') (Fin 1) 4]
   \<and> (4::int) mod 2 = 0
   \<and> track_losses (Tracker_init [SacredLogger ''ex''] 1 None None '''') [Fin 1, Fin 2, Fin 3]
       = (\<lparr>epoch = 0, update = 0, losses = [Fin 1, Fin 2, Fin 3],
            loggers = [SacredLogger ''ex''], log_every = 1,
            metrics = None, metrics_names = None, pre_tag = ''''\<rparr>, [[], [], []])"
  using C5_epoch0 [of "\<lparr>epoch = 0, update = 4, losses = [],
            loggers = [SacredLogger ''ex''], log_every = 2,
            metrics = None, metrics_names = None, pre_tag = ''''\<rparr>" "Fin 1"
            "[SacredLogger ''ex'']" 1 None None "''''" "[Fin 1, Fin 2, Fin 3]"]
  by (simp add: track_loss_eq Tracker_init_def)

section \<open>Computing the metrics\<close>

lemma for_each_events:
  assumes "e \<in> set (snd (for_each xs body))"
  shows "\<exists>x \<in> set xs. e \<in> set (snd (body x))"
  using assms
proof (induction xs)
  case Nil
  then show ?case by simp
next
  case (Cons x xs)
  then show ?case
    by (cases "body x"; cases "fst (body x)"; cases "for_each xs body") auto
qed

lemma emit_pre_event:
  assumes "e \<in> set (snd (emit lg (pre t name) v step))"
  shows "e = log_scalar lg (tag_of e) v step \<and>
         (if pre_tag t = [] then tag_of e = name
          else \<exists>s. name = Str s \<and> tag_of e = Str (pre_tag t @ ''.'' @ s))"
  using assms by (cases lg; cases name; cases "pre_tag t = []") (auto simp: pre_def)

lemma for_each_zip_Str:
  "for_each (zip ms (map Str ns))
        (\<lambda>(metric, metric_name). emit lg (pre t metric_name) (metric y p) step) =
      (Inr (), map (\<lambda>(m, n). log_scalar lg
                   (Str (if pre_tag t = [] then n else pre_tag t @ ''.'' @ n))
                   (m y p) step) (zip ms ns))"
  by (induction ms ns rule: list_induct2') (simp_all add: pre_Str)

lemma compute_metrics_named:
  assumes "metrics t = Some ms" "ms \<noteq> []" "metrics_names t = Some ns" "ns \<noteq> []"
    and "length y = length p"
  shows "compute_metrics t y p =
     (Inr (), t,
      concat (map (\<lambda>lg. map (\<lambda>(m, n). log_scalar lg
                   (Str (if pre_tag t = [] then n else pre_tag t @ ''.'' @ n))
                   (m y p) (epoch t)) (zip ms ns)) (loggers t)))"
proof -
  have nm: "names t = map Str ns"
    using assms by (simp add: names_def)
  note inner = for_each_zip_Str
  have "for_each (loggers t)
          (\<lambda>lg. for_each (zip (the (metrics t)) (names t))
             (\<lambda>(metric, metric_name). emit lg (pre t metric_name) (metric y p) (epoch t))) =
        (Inr (), concat (map (\<lambda>lg. map (\<lambda>(m, n). log_scalar lg
                   (Str (if pre_tag t = [] then n else pre_tag t @ ''.'' @ n))
                   (m y p) (epoch t)) (zip ms ns)) (loggers t)))"
    by (rule for_each_all_ok) (simp add: nm assms(1) inner)
  then show ?thesis
    using assms by (simp add: compute_metrics_def)
qed

lemma zip_take_both: "zip (take (length ys) xs) (take (length xs) ys) = zip xs ys"
  by (induction xs ys rule: list_induct2') simp_all

lemma compute_metrics_event:
  assumes "e \<in> set (snd (snd (compute_metrics t y p)))"
  shows "\<exists>name \<in> set (names t).
           (if pre_tag t = [] then tag_of e = name
            else \<exists>s. name = Str s \<and> tag_of e = Str (pre_tag t @ ''.'' @ s))"
proof -
  let ?inner = "\<lambda>lg. for_each (zip (the (metrics t)) (names t))
                   (\<lambda>(metric, metric_name).
                      emit lg (pre t metric_name) (metric y p) (epoch t))"
  have "e \<in> set (snd (for_each (loggers t) ?inner))"
    using assms by (simp add: compute_metrics_def split: if_splits prod.splits)
  then obtain lg where "e \<in> set (snd (?inner lg))"
    using for_each_events by blast
  then obtain m name where mn: "(m, name) \<in> set (zip (the (metrics t)) (names t))"
    and e: "e \<in> set (snd (emit lg (pre t name) (m y p) (epoch t)))"
    using for_each_events [of e "zip (the (metrics t)) (names t)"] by fastforce
  from mn have "name \<in> set (names t)"
    by (rule set_zip_rightD)
  with emit_pre_event [OF e] show ?thesis by blast
qed

text \<open>
  Claim C4. When metrics are configured and the two sequences differ in length,
  \<^verbatim>\<open>compute_metrics\<close> raises \<^verbatim>\<open>AssertionError\<close> before any logger is
  called, and the tracker is as it was.
\<close>

theorem C4_length_mismatch:
  assumes "truthy (metrics t)" and "length y \<noteq> length p"
  shows "compute_metrics t y p = (Inl AssertionError, t, [])"
  using assms by (simp add: compute_metrics_def)

theorem C4_length_mismatch_witness:
  "truthy (metrics \<lparr>epoch = 2, update = 9, losses = [Fin 1],
            loggers = [SacredLogger ''ex''], log_every = 1,
            metrics = Some [exact_match], metrics_names = Some [''acc''], pre_tag = ''val''\<rparr>)
   \<and> length [Fin 1, Fin 0, Fin 1] \<noteq> length [Fin 1, Fin 0]
   \<and> compute_metrics \<lparr>epoch = 2, update = 9, losses = [Fin 1],
            loggers = [SacredLogger ''ex''], log_every = 1,
            metrics = Some [exact_match], metrics_names = Some [''acc''], pre_tag = ''val''\<rparr>
         [Fin 1, Fin 0, Fin 1] [Fin 1, Fin 0]
       = (Inl AssertionError,
          \<lparr>epoch = 2, update = 9, losses = [Fin 1],
            loggers = [SacredLogger ''ex''], log_every = 1,
            metrics = Some [exact_match], metrics_names = Some [''acc''], pre_tag = ''val''\<rparr>,
          [])"
  using C4_length_mismatch [of "\<lparr>epoch = 2, update = 9, losses = [Fin 1],
            loggers = [SacredLogger ''ex''], log_every = 1,
            metrics = Some [exact_match], metrics_names = Some [''acc''], pre_tag = ''val''\<rparr>"
         "[Fin 1, Fin 0, Fin 1]" "[Fin 1, Fin 0]"]
  by simp

text \<open>
  Claim C8. \<^verbatim>\<open>compute_metrics\<close> assigns no attribute of the tracker: whatever the
  outcome of the call (the metrics were logged, there was nothing to do, or an error was
  raised), the tracker after the call is the tracker before it, field by field.
\<close>

theorem C8_compute_metrics_frame: "fst (snd (compute_metrics t y p)) = t"
  by (simp add: compute_metrics_def split: prod.splits)

text \<open>
  Claim C9. When \<^verbatim>\<open>metrics\<close> is \<^verbatim>\<open>None\<close> or the empty list,
  \<^verbatim>\<open>compute_metrics\<close> returns at once for any two sequences, of equal length or
  not: no error, no event, no change.
\<close>

theorem C9_no_metrics:
  assumes "metrics t = None \<or> metrics t = Some []"
  shows "compute_metrics t y p = (Inr (), t, [])"
  using assms by (auto simp add: compute_metrics_def)

theorem C9_no_metrics_witness:
  "compute_metrics \<lparr>epoch = 1, update = 3, losses = [],
            loggers = [SacredLogger ''ex''], log_every = 1,
            metrics = Some [], metrics_names = Some [''acc''], pre_tag = ''val''\<rparr>
         [Fin 1, Fin 0, Fin 1] [Fin 1, Fin 0]
       = (Inr (),
          \<lparr>epoch = 1, update = 3, losses = [],
            loggers = [SacredLogger ''ex''], log_every = 1,
            metrics = Some [], metrics_names = Some [''acc''], pre_tag = ''val''\<rparr>,
          [])
   \<and> compute_metrics \<lparr>epoch = 1, update = 3, losses = [],
            loggers = [SacredLogger ''ex''], log_every = 1,
            metrics = None, metrics_names = None, pre_tag = ''''\<rparr>
         [Fin 1] []
       = (Inr (),
          \<lparr>epoch = 1, update = 3, losses = [],
            loggers = [SacredLogger ''ex''], log_every = 1,
            metrics = None, metrics_names = None, pre_tag = ''''\<rparr>,
          [])"
  using C9_no_metrics [of "\<lparr>epoch = 1, update = 3, losses = [],
            loggers = [SacredLogger ''ex''], log_every = 1,
            metrics = Some [], metrics_names = Some [''acc''], pre_tag = ''val''\<rparr>"
         "[Fin 1, Fin 0, Fin 1]" "[Fin 1, Fin 0]"]
        C9_no_metrics [of "\<lparr>epoch = 1, update = 3, losses = [],
            loggers = [SacredLogger ''ex''], log_every = 1,
            metrics = None, metrics_names = None, pre_tag = ''''\<rparr>"
         "[Fin 1]" "[]"]
  by simp

text \<open>
  Claim C6 does not hold of the code when no names are configured and the prefix is not
  empty: the names are then the metric objects, and \<^verbatim>\<open>_pre\<close> adds a
  \<^verbatim>\<open>str\<close> to a function. With one logger, the metric of the specification and
  the prefix \<^verbatim>\<open>train\<close>, the call raises \<^verbatim>\<open>TypeError\<close> and nothing is
  logged.
\<close>

theorem C6_prefixed_object_name_raises:
  "compute_metrics \<lparr>epoch = 0, update = 0, losses = [],
            loggers = [SacredLogger ''ex''], log_every = 1,
            metrics = Some [exact_match], metrics_names = None, pre_tag = ''train''\<rparr>
         [Fin 1, Fin 0] [Fin 1, Fin 0]
       = (Inl TypeError,
          \<lparr>epoch = 0, update = 0, losses = [],
            loggers = [SacredLogger ''ex''], log_every = 1,
            metrics = Some [exact_match], metrics_names = None, pre_tag = ''train''\<rparr>,
          [])"
  by (simp add: compute_metrics_def names_def pre_def)

text \<open>
  Claim C10 does not hold for the shortest list of names there is: an empty
  \<^verbatim>\<open>metrics_names\<close> is taken for an absent one, so the one configured metric is
  logged, under the metric object as its tag, where the claim has no pair logged.
\<close>

theorem C10_empty_names_counterexample:
  "compute_metrics \<lparr>epoch = 0, update = 0, losses = [],
            loggers = [SacredLogger ''ex''], log_every = 1,
            metrics = Some [exact_match], metrics_names = Some [], pre_tag = ''''\<rparr>
         [Fin 1, Fin 0] [Fin 1, Fin 0]
       = (Inr (),
          \<lparr>epoch = 0, update = 0, losses = [],
            loggers = [SacredLogger ''ex''], log_every = 1,
            metrics = Some [exact_match], metrics_names = Some [], pre_tag = ''''\<rparr>,
          [Ex_log_scalar ''ex'' (Obj exact_match) (Fin 1) 0])"
  by (simp add: compute_metrics_def names_def pre_def exact_match_def)

text \<open>
  Claim C10, amended. With metrics configured, sequences of equal length and a list of
  names that is not empty, \<^verbatim>\<open>compute_metrics\<close> raises nothing and logs, for every
  logger, the pairs of \<^verbatim>\<open>zip(metrics, metrics_names)\<close>: the first
  \<^verbatim>\<open>len(metrics_names)\<close> metrics when the names are fewer, and the first
  \<^verbatim>\<open>len(metrics)\<close> names when the names are more. The other metrics and names
  are passed over in silence.
\<close>

theorem C10_zip_truncates:
  assumes "metrics t = Some ms" and "ms \<noteq> []"
    and "metrics_names t = Some ns" and "ns \<noteq> []"
    and "length y = length p"
  shows "compute_metrics t y p =
     (Inr (), t,
      concat (map (\<lambda>lg. map (\<lambda>(m, n). log_scalar lg
                   (Str (if pre_tag t = [] then n else pre_tag t @ ''.'' @ n))
                   (m y p) (epoch t))
                (zip (take (length ns) ms) (take (length ms) ns))) (loggers t)))"
  using compute_metrics_named [OF assms] by (simp add: zip_take_both)

theorem C10_zip_truncates_witness:
  "compute_metrics \<lparr>epoch = 3, update = 0, losses = [],
            loggers = [SacredLogger ''ex'', TensorBoardLogger ''runs''], log_every = 1,
            metrics = Some [exact_match, \<lambda>y p. NaN], metrics_names = Some [''acc''],
            pre_tag = ''val''\<rparr>
         [Fin 1, Fin 0] [Fin 1, Fin 0]
       = (Inr (),
          \<lparr>epoch = 3, update = 0, losses = [],
            loggers = [SacredLogger ''ex'', TensorBoardLogger ''runs''], log_every = 1,
            metrics = Some [exact_match, \<lambda>y p. NaN], metrics_names = Some [''acc''],
            pre_tag = ''val''\<rparr>,
          [Ex_log_scalar ''ex'' (Str ''val.acc'') (Fin 1) 3,
           Writer_add_scalar ''runs'' (Str ''val.acc'') (Fin 1) 3])
   \<and> compute_metrics \<lparr>epoch = 3, update = 0, losses = [],
            loggers = [SacredLogger ''ex''], log_every = 1,
            metrics = Some [exact_match], metrics_names = Some [''acc'', ''auc''],
            pre_tag = ''''\<rparr>
         [Fin 1, Fin 0] [Fin 0, Fin 1]
       = (Inr (),
          \<lparr>epoch = 3, update = 0, losses = [],
            loggers = [SacredLogger ''ex''], log_every = 1,
            metrics = Some [exact_match], metrics_names = Some [''acc'', ''auc''],
            pre_tag = ''''\<rparr>,
          [Ex_log_scalar ''ex'' (Str ''acc'') (Fin 0) 3])"
  using C10_zip_truncates [of "\<lparr>epoch = 3, update = 0, losses = [],
            loggers = [SacredLogger ''ex'', TensorBoardLogger ''runs''], log_every = 1,
            metrics = Some [exact_match, \<lambda>y p. NaN], metrics_names = Some [''acc''],
            pre_tag = ''val''\<rparr>" "[exact_match, \<lambda>y p. NaN]" "[''acc'']"
            "[Fin 1, Fin 0]" "[Fin 1, Fin 0]"]
        C10_zip_truncates [of "\<lparr>epoch = 3, update = 0, losses = [],
            loggers = [SacredLogger ''ex''], log_every = 1,
            metrics = Some [exact_match], metrics_names = Some [''acc'', ''auc''],
            pre_tag = ''''\<rparr>" "[exact_match]" "[''acc'', ''auc'']"
            "[Fin 1, Fin 0]" "[Fin 0, Fin 1]"]
  by (simp add: exact_match_def)

section \<open>Tags\<close>

lemma tag_of_log_scalar: "tag_of (log_scalar lg tg v step) = tg"
  by (cases lg) simp_all

text \<open>
  Claim C7. \<^verbatim>\<open>_pre\<close> turns a name into \<^verbatim>\<open>pre_tag + "." + name\<close> when
  \<^verbatim>\<open>pre_tag\<close> is not empty and leaves it alone otherwise, and every tag that
  \<^verbatim>\<open>track_loss\<close>, \<^verbatim>\<open>summarise\<close> and \<^verbatim>\<open>compute_metrics\<close> pass to a
  logger has gone through it: the names are \<^verbatim>\<open>loss\<close>, \<^verbatim>\<open>avg_loss\<close> and the
  names of the metrics. With \<^verbatim>\<open>pre_tag = "train"\<close> the tag of a logged loss is
  \<^verbatim>\<open>train.loss\<close>.
\<close>

theorem C7_tags:
  "pre t (Str s) = Inr (Str (if pre_tag t = [] then s else pre_tag t @ ''.'' @ s))
   \<and> (\<forall>e \<in> set (snd (snd (track_loss t loss))).
         tag_of e = Str (if pre_tag t = [] then ''loss'' else pre_tag t @ ''.'' @ ''loss''))
   \<and> (\<forall>e \<in> set (snd (snd (summarise float_mean t))).
         tag_of e = Str (if pre_tag t = [] then ''avg_loss'' else pre_tag t @ ''.'' @ ''avg_loss''))
   \<and> (\<forall>e \<in> set (snd (snd (compute_metrics t y p))).
         \<exists>name \<in> set (names t).
           (if pre_tag t = [] then tag_of e = name
            else \<exists>s. name = Str s \<and> tag_of e = Str (pre_tag t @ ''.'' @ s)))
   \<and> (pre_tag t = ''train'' \<longrightarrow>
         (\<forall>e \<in> set (snd (snd (track_loss t loss))). tag_of e = Str ''train.loss''))"
proof (intro conjI ballI impI)
  show "pre t (Str s) = Inr (Str (if pre_tag t = [] then s else pre_tag t @ ''.'' @ s))"
    by (rule pre_Str)
next
  fix e assume "e \<in> set (snd (snd (track_loss t loss)))"
  then show "tag_of e = Str (if pre_tag t = [] then ''loss'' else pre_tag t @ ''.'' @ ''loss'')"
    by (cases "loggers t = []") (auto simp: track_loss_eq tag_of_log_scalar split: if_splits)
next
  fix e assume "e \<in> set (snd (snd (summarise float_mean t)))"
  then show "tag_of e = Str (if pre_tag t = [] then ''avg_loss'' else pre_tag t @ ''.'' @ ''avg_loss'')"
    by (auto simp: summarise_eq tag_of_log_scalar)
next
  fix e assume "e \<in> set (snd (snd (compute_metrics t y p)))"
  then show "\<exists>name \<in> set (names t).
           (if pre_tag t = [] then tag_of e = name
            else \<exists>s. name = Str s \<and> tag_of e = Str (pre_tag t @ ''.'' @ s))"
    by (rule compute_metrics_event)
next
  fix e assume "pre_tag t = ''train''" and "e \<in> set (snd (snd (track_loss t loss)))"
  then show "tag_of e = Str ''train.loss''"
    by (auto simp: track_loss_eq tag_of_log_scalar split: if_splits)
qed

theorem C7_tags_witness:
  "map tag_of (snd (snd (track_loss \<lparr>epoch = 1, update = 1, losses = [],
            loggers = [SacredLogger ''ex'', TensorBoardLogger ''runs''], log_every = 2,
            metrics = Some [exact_match], metrics_names = Some [''acc''],
            pre_tag = ''train''\<rparr> (Fin 3))))
     = [Str ''train.loss'', Str ''train.loss'']
   \<and> map tag_of (snd (snd (summarise (\<lambda>xs. Fin 0) \<lparr>epoch = 1, update = 1, losses = [],
            loggers = [SacredLogger ''ex'', TensorBoardLogger ''runs''], log_every = 2,
            metrics = Some [exact_match], metrics_names = Some [''acc''],
            pre_tag = ''train''\<rparr>)))
     = [Str ''train.avg_loss'', Str ''train.avg_loss'']
   \<and> map tag_of (snd (snd (compute_metrics \<lparr>epoch = 1, update = 1, losses = [],
            loggers = [SacredLogger ''ex'', TensorBoardLogger ''runs''], log_every = 2,
            metrics = Some [exact_match], metrics_names = Some [''acc''],
            pre_tag = ''train''\<rparr> [Fin 1, Fin 0] [Fin 1, Fin 0])))
     = [Str ''train.acc'', Str ''train.acc'']
   \<and> pre \<lparr>epoch = 1, update = 1, losses = [],
            loggers = [SacredLogger ''ex'', TensorBoardLogger ''runs''], log_every = 2,
            metrics = Some [exact_match], metrics_names = Some [''acc''],
            pre_tag = ''train''\<rparr> (Str ''loss'') = Inr (Str ''train.loss'')"
  using C7_tags [where float_mean = "\<lambda>xs. Fin 0"
          and t = "\<lparr>epoch = 1, update = 1, losses = [],
            loggers = [SacredLogger ''ex'', TensorBoardLogger ''runs''], log_every = 2,
            metrics = Some [exact_match], metrics_names = Some [''acc''],
            pre_tag = ''train''\<rparr>"
          and s = "''loss''" and loss = "Fin 3" and y = "[Fin 1, Fin 0]" and p = "[Fin 1, Fin 0]"]
  by (simp add: track_loss_eq summarise_eq np_mean_Nil compute_metrics_def names_def pre_def)

end
